theory Spec2Isabelle
  imports Main "HOL-Library.Sublist" "HOL-Library.AList"
begin

section \<open>The content script of npm faves (scripts/content-script.js)\<close>

text \<open>
  The script runs in a page of the npm website. It reads the address of the page, queries
  the storage of the extension, and rewrites the page: it removes the toggle control it
  injected before and appends a fresh one. The embedding follows the script function by
  function and keeps its names.
\<close>

subsection \<open>Strings: \<open>String.prototype.split\<close> with a string separator\<close>

text \<open>
  \<open>s.split(sep)\<close> scans \<open>s\<close> from the left. Where \<open>sep\<close> starts at the current
  position the piece collected so far is closed and the scan goes on behind the separator;
  otherwise the character joins the current piece. The last piece is closed at the end of
  the string, so the result is never empty. The script only splits at \<open>"package/"\<close> and
  \<open>"?"\<close>; with the empty separator JavaScript cuts between all characters.
\<close>

function split_from :: "string \<Rightarrow> string \<Rightarrow> string \<Rightarrow> string list" where
  "split_from sep piece [] = [piece]"
| "split_from sep piece (c # cs) =
     (if sep \<noteq> [] \<and> prefix sep (c # cs)
      then piece # split_from sep [] (drop (length sep) (c # cs))
      else split_from sep (piece @ [c]) cs)"
  by pat_completeness auto
termination
  by (relation "measure (\<lambda>(sep, piece, s). length s)") auto

definition split :: "string \<Rightarrow> string \<Rightarrow> string list" where
  "split sep s = (if sep = [] then map (\<lambda>c. [c]) s else split_from sep [] s)"

subsection \<open>getPackageNameFromUrl (lines 183 to 189)\<close>

text \<open>
  \<open>document.location.href\<close> is the field \<open>href\<close> of the page state below; here it is the
  argument. \<open>null\<close> is \<open>None\<close>. \<open>xs[0]\<close> of an empty array would be \<open>undefined\<close>, which
  the callers treat like \<open>null\<close>.
\<close>

definition getPackageNameFromUrl :: "string \<Rightarrow> string option" where
  "getPackageNameFromUrl href =
     (let splitted = split ''package/'' href
      in if length splitted = 2
         then (case split ''?'' (splitted ! 1) of [] \<Rightarrow> None | x # _ \<Rightarrow> Some x)
         else None)"


subsection \<open>The regular expression of the visibility listener (line 219)\<close>

text \<open>
  \<open>/https:\/\/www.npmjs.com\/package\//\<close> has no anchors and no flags: \<open>test\<close> looks for
  a match starting anywhere in the string. The two dots of \<open>www.npmjs.com\<close> are not escaped
  in the source, so each stands for any character except a line terminator. An address is
  a string of ASCII characters, where the line terminators are line feed and carriage
  return.
\<close>

datatype atom = Lit char | Dot

fun matches_here :: "atom list \<Rightarrow> string \<Rightarrow> bool" where
  "matches_here [] s = True"
| "matches_here (a # r) [] = False"
| "matches_here (Lit c # r) (x # xs) = (c = x \<and> matches_here r xs)"
| "matches_here (Dot # r) (x # xs) = (x \<noteq> CHR 0x0A \<and> x \<noteq> CHR 0x0D \<and> matches_here r xs)"

fun test :: "atom list \<Rightarrow> string \<Rightarrow> bool" where
  "test re [] = matches_here re []"
| "test re (x # xs) = (matches_here re (x # xs) \<or> test re xs)"

definition pattern :: "atom list" where
  "pattern = map Lit ''https://www'' @ [Dot] @ map Lit ''npmjs'' @ [Dot] @ map Lit ''com/package/''"

subsection \<open>The document\<close>

text \<open>
  A document is the list of the children of the \<open>Document\<close> node, each a tree of elements
  and text nodes. A reference to a node is its path: the index among the top nodes, then
  the index among the child nodes of that one, and so on. A path is what a variable of the
  script holds after \<open>querySelector\<close>; it is used at once, before the tree changes.
\<close>

datatype node =
    Element string "(string \<times> string) list" "node list"
  | TextNode string

type_synonym path = "nat list"

fun getAttribute :: "node \<Rightarrow> string \<Rightarrow> string option" where
  "getAttribute (Element t atts cs) k = map_of atts k"
| "getAttribute (TextNode s) k = None"

fun setClassName :: "string \<Rightarrow> node \<Rightarrow> node" where
  "setClassName v (Element t atts cs) = Element t (AList.update ''class'' v atts) cs"
| "setClassName v (TextNode s) = TextNode s"

fun append_node :: "node \<Rightarrow> node \<Rightarrow> node" where
  "append_node new (Element t atts cs) = Element t atts (cs @ [new])"
| "append_node new (TextNode s) = TextNode s"

text \<open>The selectors \<open>#npmFavesLink\<close>, \<open>ul[role=tablist]\<close>, \<open>a\<close> and the tag \<open>head\<close>.\<close>

definition is_npmFavesLink :: "node \<Rightarrow> bool" where
  "is_npmFavesLink n = (getAttribute n ''id'' = Some ''npmFavesLink'')"

fun is_tag :: "string \<Rightarrow> node \<Rightarrow> bool" where
  "is_tag name (Element t atts cs) = (t = name)"
| "is_tag name (TextNode s) = False"

definition is_tablist :: "node \<Rightarrow> bool" where
  "is_tablist n = (is_tag ''ul'' n \<and> getAttribute n ''role'' = Some ''tablist'')"

text \<open>
  \<open>querySelector\<close> returns the first matching element in document order (a node before
  its children, children from left to right), \<open>None\<close> for \<open>null\<close>.
  \<open>getElementsByTagName(t)[0]\<close> is the same search with the tag as selector.
\<close>

fun shift :: "path \<Rightarrow> path" where
  "shift [] = []"
| "shift (i # p) = Suc i # p"

fun querySelector :: "(node \<Rightarrow> bool) \<Rightarrow> node list \<Rightarrow> path option" where
  "querySelector sel [] = None"
| "querySelector sel (TextNode s # ns) = map_option shift (querySelector sel ns)"
| "querySelector sel (Element t atts cs # ns) =
     (if sel (Element t atts cs) then Some [0]
      else (case querySelector sel cs of
              Some p \<Rightarrow> Some (0 # p)
            | None \<Rightarrow> map_option shift (querySelector sel ns)))"

fun node_at :: "path \<Rightarrow> node list \<Rightarrow> node option" where
  "node_at [] ns = None"
| "node_at p [] = None"
| "node_at [0] (n # ns) = Some n"
| "node_at (0 # p) (Element t atts cs # ns) = node_at p cs"
| "node_at (0 # p) (TextNode s # ns) = None"
| "node_at (Suc i # p) (n # ns) = node_at (i # p) ns"

text \<open>
  \<open>update_at p f\<close> puts the nodes \<open>f n\<close> in the place of the node \<open>n\<close> at \<open>p\<close>: no node
  removes it, one node replaces it.
\<close>

fun update_at :: "path \<Rightarrow> (node \<Rightarrow> node list) \<Rightarrow> node list \<Rightarrow> node list" where
  "update_at [] f ns = ns"
| "update_at p f [] = []"
| "update_at [0] f (n # ns) = f n @ ns"
| "update_at (0 # p) f (Element t atts cs # ns) = Element t atts (update_at p f cs) # ns"
| "update_at (0 # p) f (TextNode s # ns) = TextNode s # ns"
| "update_at (Suc i # p) f (n # ns) = n # update_at (i # p) f ns"

definition removeChild :: "path \<Rightarrow> node list \<Rightarrow> node list" where
  "removeChild p d = update_at p (\<lambda>n. []) d"

definition appendChild :: "path \<Rightarrow> node \<Rightarrow> node list \<Rightarrow> node list" where
  "appendChild p new d = update_at p (\<lambda>n. [append_node new n]) d"

text \<open>
  \<open>parentElement\<close> of a top node is \<open>null\<close>: its parent is the \<open>Document\<close>, which is
  not an element. \<open>e.children\<close> holds the element children only, so \<open>e.children[0]\<close> is
  the first child that is an element, \<open>undefined\<close> (\<open>None\<close>) when there is none.
\<close>

definition parentElement :: "path \<Rightarrow> path option" where
  "parentElement p = (if 2 \<le> length p then Some (butlast p) else None)"

fun firstElementIndex :: "node list \<Rightarrow> nat option" where
  "firstElementIndex [] = None"
| "firstElementIndex (Element t atts cs # ns) = Some 0"
| "firstElementIndex (TextNode s # ns) = map_option Suc (firstElementIndex ns)"

definition children0 :: "path \<Rightarrow> node list \<Rightarrow> path option" where
  "children0 p d =
     (case node_at p d of
        Some (Element t atts cs) \<Rightarrow> map_option (\<lambda>i. p @ [i]) (firstElementIndex cs)
      | Some (TextNode s) \<Rightarrow> None
      | None \<Rightarrow> None)"

text \<open>The number of elements of the document that a selector matches.\<close>

fun count_nodes :: "(node \<Rightarrow> bool) \<Rightarrow> node list \<Rightarrow> nat" where
  "count_nodes sel [] = 0"
| "count_nodes sel (TextNode s # ns) = count_nodes sel ns"
| "count_nodes sel (Element t atts cs # ns) =
     (if sel (Element t atts cs) then 1 else 0) + count_nodes sel cs + count_nodes sel ns"

subsection \<open>The page and what the script does to the world outside\<close>

text \<open>
  A thrown error is a value. \<open>TypeError\<close> is what reading a property of \<open>null\<close> or
  \<open>undefined\<close> throws; \<open>OtherError\<close> is an error of code outside this file.
\<close>

datatype js_error = TypeError | OtherError string

datatype console_arg = Str string | Err js_error

record message =
  action :: string
  packageName :: "string option"

record response =
  result :: bool

datatype notification_type = INFO

text \<open>
  The calls the script makes to its surroundings are recorded in the order they are made:
  \<open>console.log\<close>, \<open>npmFaves.storage.getFave\<close>, \<open>npmFaves.ui.createNotification\<close> and
  \<open>chrome.runtime.sendMessage\<close>, each with its arguments.
\<close>

datatype event =
    ConsoleLog console_arg
  | GetFave "string option" bool
  | CreateNotification notification_type string bool
  | SendMessage message

text \<open>
  The state of a page: its address (\<open>document.location.href\<close>, \<open>window.location.href\<close>
  and \<open>document.URL\<close>), \<open>document.hidden\<close>, the document, the calls made so far, and the
  requests sent whose callback has not run yet, each with the \<open>displayMessage\<close> that its
  callback captured (lines 152 to 176).
\<close>

record page =
  href :: string
  hidden :: bool
  doc :: "node list"
  trace :: "event list"
  pending :: "(message \<times> string) list"

text \<open>
  \<open>npmFaves.storage\<close> is not part of this file. \<open>getFave\<close> is a parameter: the value its
  promise settles with for an identifier, a record or nothing when it fulfils, an error when
  it rejects. The code behind the \<open>await\<close> runs in one turn with that value.
\<close>

type_synonym 'f storage = "string option \<Rightarrow> js_error + 'f option"

definition console_log :: "console_arg \<Rightarrow> page \<Rightarrow> page" where
  "console_log x s = s\<lparr>trace := trace s @ [ConsoleLog x]\<rparr>"

subsection \<open>validatePageContent (lines 28 to 30) and injectStyles (lines 38 to 48)\<close>

definition validatePageContent :: "node list \<Rightarrow> bool" where
  "validatePageContent d = (case querySelector is_tablist d of Some p \<Rightarrow> True | None \<Rightarrow> False)"

definition styles :: "string list" where
  "styles = [''https://fonts.googleapis.com/icon?family=Material+Icons|Material+Icons+Outlined'']"

text \<open>
  A function that changes the document and may throw returns the document it leaves
  behind in both cases: \<open>Inl (e, d)\<close> when it threw \<open>e\<close>, \<open>Inr d\<close> when it returned.
  \<open>forEach\<close> stops at the first callback that throws.
\<close>

fun injectStyles_forEach :: "string list \<Rightarrow> node list \<Rightarrow> (js_error \<times> node list) + node list" where
  "injectStyles_forEach [] d = Inr d"
| "injectStyles_forEach (h # hs) d =
     (let link = Element ''link'' [(''rel'', ''stylesheet''), (''href'', h)] []
      in case querySelector (is_tag ''head'') d of
           None \<Rightarrow> Inl (TypeError, d)
         | Some p \<Rightarrow> injectStyles_forEach hs (appendChild p link d))"

definition injectStyles :: "node list \<Rightarrow> (js_error \<times> node list) + node list" where
  "injectStyles d = injectStyles_forEach styles d"

subsection \<open>getFaveButtonElement (lines 113 to 138)\<close>

text \<open>
  The element that the template parses to, with the text nodes for the line breaks and
  the indentation of the template. \<open>trim\<close> takes the white space off both ends, so the
  first child of \<open>tempDiv\<close> is the outer \<open>div\<close>.
\<close>

definition getFaveButtonElement :: "bool \<Rightarrow> node" where
  "getFaveButtonElement toAddToFaves =
     (let (faveButtonAction, faveButtonText, faveButtonIcon, faveButtonClass) =
            (if \<not> toAddToFaves
             then (''removeFromFaves'', ''Remove from faves'', ''delete'', ''npmf_cancel-button'')
             else (''addToFaves'', ''Add to faves'', ''add'', ''npmf_confirm-button''))
      in Element ''div'' [(''id'', ''npmFavesLink''), (''class'', ''npmf_button '' @ faveButtonClass)]
           [TextNode (CHR 0x0A # ''    ''),
            Element ''a'' [(''class'', ''pack-unfave''), (''fave-action'', faveButtonAction)]
              [TextNode (CHR 0x0A # ''      ''),
               Element ''span'' [(''class'', ''material-icons-outlined'')] [TextNode faveButtonIcon],
               TextNode (CHR 0x0A # ''      '' @ faveButtonText @ CHR 0x0A # ''    '')],
            TextNode (CHR 0x0A # ''    ''),
            Element ''div'' [(''id'', ''npmfNotification'')] [],
            TextNode (CHR 0x0A # ''  '')])"

subsection \<open>createFavesButton (lines 83 to 104)\<close>

text \<open>
  The place the button goes to is
  \<open>document.querySelector("ul[role=tablist]").parentElement.children[0].children[0]\<close>.
  Each step of the chain throws a \<open>TypeError\<close> when the step before gave \<open>null\<close> or
  \<open>undefined\<close>; \<open>None\<close> stands for that.
\<close>

definition injectionPoint :: "node list \<Rightarrow> path option" where
  "injectionPoint d =
     (case querySelector is_tablist d of
        None \<Rightarrow> None
      | Some ul \<Rightarrow>
          (case parentElement ul of
             None \<Rightarrow> None
           | Some parent \<Rightarrow>
               (case children0 parent d of
                  None \<Rightarrow> None
                | Some c \<Rightarrow> children0 c d)))"

text \<open>
  The old button is removed first, so it stays removed when a later line throws.
  \<open>faveLinkOf\<close> is \<open>faveButton.querySelector("a")\<close>, a search below the button; the
  listener that line 97 registers on the link is the function \<open>handleFaveLinkClick\<close>
  below, and a click on the link is a call of it with the link as \<open>this\<close>.
\<close>

fun faveLinkOf :: "node \<Rightarrow> node option" where
  "faveLinkOf (Element t atts cs) =
     (case querySelector (is_tag ''a'') cs of
        Some p \<Rightarrow> node_at p cs
      | None \<Rightarrow> None)"
| "faveLinkOf (TextNode x) = None"

definition removeOldButton :: "node list \<Rightarrow> node list" where
  "removeOldButton d =
     (case querySelector is_npmFavesLink d of
        Some faveButton \<Rightarrow> removeChild faveButton d
      | None \<Rightarrow> d)"

definition createFavesButton :: "bool \<Rightarrow> node list \<Rightarrow> (js_error \<times> node list) + node list" where
  "createFavesButton toAddToFaves d =
     (let d1 = removeOldButton d;
          faveButton = getFaveButtonElement toAddToFaves
      in case faveLinkOf faveButton of
           None \<Rightarrow> Inl (TypeError, d1)
         | Some faveLink \<Rightarrow>
             (case injectionPoint d1 of
                None \<Rightarrow> Inl (TypeError, d1)
              | Some target \<Rightarrow> Inr (appendChild target faveButton d1)))"

subsection \<open>addButtonToPage (lines 55 to 76)\<close>

text \<open>
  \<open>message\<close> is \<open>None\<close> when the caller passes nothing. \<open>if (message)\<close> holds for a string
  that is not empty. Everything that throws inside is caught by the function's own
  \<open>catch\<close> and logged, so the function always returns. \<open>npmFaves.ui\<close> is not part of this
  file: \<open>createNotification\<close> is recorded as a call, and what it writes into the page is
  left out.
\<close>

definition addButtonToPage :: "'f storage \<Rightarrow> string option \<Rightarrow> page \<Rightarrow> page" where
  "addButtonToPage getFave message s =
     (let packageName = getPackageNameFromUrl (href s);
          s1 = s\<lparr>trace := trace s @ [GetFave packageName False]\<rparr>
      in case getFave packageName of
           Inl error \<Rightarrow> console_log (Err error) s1
         | Inr fave \<Rightarrow>
             (let toAddToFaves = (case fave of Some f \<Rightarrow> False | None \<Rightarrow> True)
              in case createFavesButton toAddToFaves (doc s1) of
                   Inl (error, d) \<Rightarrow> console_log (Err error) (s1\<lparr>doc := d\<rparr>)
                 | Inr d \<Rightarrow>
                     (case message of
                        None \<Rightarrow> s1\<lparr>doc := d\<rparr>
                      | Some m \<Rightarrow>
                          if m \<noteq> []
                          then s1\<lparr>doc := d, trace := trace s1 @ [CreateNotification INFO m False]\<rparr>
                          else s1\<lparr>doc := d\<rparr>)))"

subsection \<open>The entry of the script (lines 12 to 21)\<close>

text \<open>
  \<open>addButtonToPage()\<close> is called without \<open>await\<close>; it catches its own errors, so its
  promise never rejects.
\<close>

definition main :: "'f storage \<Rightarrow> page \<Rightarrow> page" where
  "main getFave s =
     (if validatePageContent (doc s)
      then (case injectStyles (doc s) of
              Inl (error, d) \<Rightarrow> console_log (Err error) (s\<lparr>doc := d\<rparr>)
            | Inr d \<Rightarrow> addButtonToPage getFave None (s\<lparr>doc := d\<rparr>))
      else console_log (Str (''The url is not valid for the content script: '' @ href s)) s)"

subsection \<open>handleFaveLinkClick (lines 145 to 177)\<close>

text \<open>
  \<open>chrome.runtime.sendMessage(message, callback)\<close> hands the message to the runtime and
  returns; the callback waits in \<open>pending\<close> with the \<open>displayMessage\<close> it captured.
\<close>

definition sendMessage :: "message \<Rightarrow> string \<Rightarrow> page \<Rightarrow> page" where
  "sendMessage m displayMessage s =
     s\<lparr>trace := trace s @ [SendMessage m], pending := pending s @ [(m, displayMessage)]\<rparr>"

definition disableButton :: "node list \<Rightarrow> node list" where
  "disableButton d =
     (case querySelector is_npmFavesLink d of
        Some faveButton \<Rightarrow>
          update_at faveButton (\<lambda>n. [setClassName ''npmf_button npmf_disabled-button'' n]) d
      | None \<Rightarrow> d)"

definition handleFaveLinkClick :: "node \<Rightarrow> page \<Rightarrow> page" where
  "handleFaveLinkClick this s =
     (let s1 = s\<lparr>doc := disableButton (doc s)\<rparr>;
          packageName = getPackageNameFromUrl (href s1);
          (actionToSend, displayMessage) =
            (if getAttribute this ''fave-action'' = Some ''addToFaves''
             then (''add'', ''Package added to faves :)'')
             else (''remove'', ''Package removed from faves :('' ))
      in sendMessage \<lparr>action = actionToSend, packageName = packageName\<rparr> displayMessage s1)"

text \<open>
  The callback of lines 170 to 176, run by the runtime with the response, \<open>None\<close> when the
  runtime passes \<open>undefined\<close> because no response arrived. Reading \<open>response.result\<close> of
  \<open>undefined\<close> throws; there is no \<open>try\<close> around it, so the error leaves the callback:
  \<open>Inl\<close> with the error and the page as it is then. \<open>addButtonToPage\<close> is not awaited.
\<close>

definition sendMessage_callback ::
  "'f storage \<Rightarrow> string \<Rightarrow> response option \<Rightarrow> page \<Rightarrow> (js_error \<times> page) + page" where
  "sendMessage_callback getFave displayMessage resp s =
     (case resp of
        None \<Rightarrow> Inl (TypeError, s)
      | Some r \<Rightarrow>
          Inr (addButtonToPage getFave
                 (Some (if \<not> result r then ''An error ocurred :('' else displayMessage)) s))"

text \<open>
  The runtime ends the round trip of the request at position \<open>i\<close> of \<open>pending\<close>: it
  forgets the request and runs its callback with the response.
\<close>

definition respond ::
  "'f storage \<Rightarrow> nat \<Rightarrow> response option \<Rightarrow> page \<Rightarrow> (js_error \<times> page) + page" where
  "respond getFave i resp s =
     (if i < length (pending s)
      then sendMessage_callback getFave (snd (pending s ! i)) resp
             (s\<lparr>pending := take i (pending s) @ drop (Suc i) (pending s)\<rparr>)
      else Inr s)"

subsection \<open>The listeners (lines 205 to 224)\<close>

definition onMessage :: "'f storage \<Rightarrow> message \<Rightarrow> page \<Rightarrow> page" where
  "onMessage getFave m s =
     (if action m = ''remove''
      then (if packageName m = getPackageNameFromUrl (href s)
            then addButtonToPage getFave (Some ''Package removed from faves :('') s
            else s)
      else s)"

definition onVisibilityChange :: "'f storage \<Rightarrow> page \<Rightarrow> page" where
  "onVisibilityChange getFave s =
     (if \<not> hidden s
      then (if test pattern (href s) then addButtonToPage getFave None s else s)
      else s)"

subsection \<open>Calling the render routine several times\<close>

text \<open>
  No call site awaits \<open>addButtonToPage\<close> (lines 15, 175, 208 and 221). A call runs lines
  57 to 61, makes the call of \<open>getFave\<close> and suspends at the \<open>await\<close>; lines 62 to 75
  run in a later turn, when the promise has settled, with the value it settled with. The
  two halves are \<open>addButtonToPage_call\<close> and \<open>addButtonToPage_resume\<close>; the second half is
  still inside the \<open>try\<close>, so a rejection is caught and logged.
\<close>

definition addButtonToPage_call :: "page \<Rightarrow> page" where
  "addButtonToPage_call s =
     (let packageName = getPackageNameFromUrl (href s)
      in s\<lparr>trace := trace s @ [GetFave packageName False]\<rparr>)"

definition addButtonToPage_resume :: "js_error + 'f option \<Rightarrow> string option \<Rightarrow> page \<Rightarrow> page" where
  "addButtonToPage_resume settled message s =
     (case settled of
        Inl error \<Rightarrow> console_log (Err error) s
      | Inr fave \<Rightarrow>
          (let toAddToFaves = (case fave of Some f \<Rightarrow> False | None \<Rightarrow> True)
           in case createFavesButton toAddToFaves (doc s) of
                Inl (error, d) \<Rightarrow> console_log (Err error) (s\<lparr>doc := d\<rparr>)
              | Inr d \<Rightarrow>
                  (case message of
                     None \<Rightarrow> s\<lparr>doc := d\<rparr>
                   | Some m \<Rightarrow>
                       if m \<noteq> []
                       then s\<lparr>doc := d, trace := trace s @ [CreateNotification INFO m False]\<rparr>
                       else s\<lparr>doc := d\<rparr>)))"

text \<open>
  \<open>N\<close> calls in a row: all \<open>N\<close> calls of \<open>getFave\<close> are made first, then the second
  halves run one at a time in the order in which the promises settle. \<open>settled\<close> lists them
  in that order, each with the value its promise settled with and the message of its call;
  \<open>N\<close> is the length of the list.
\<close>

fun resumes :: "((js_error + 'f option) \<times> string option) list \<Rightarrow> page \<Rightarrow> page" where
  "resumes [] s = s"
| "resumes ((answer, message) # rest) s = resumes rest (addButtonToPage_resume answer message s)"

definition rendersInARow :: "((js_error + 'f option) \<times> string option) list \<Rightarrow> page \<Rightarrow> page" where
  "rendersInARow settled s = resumes settled ((addButtonToPage_call ^^ length settled) s)"

subsection \<open>What a page shows\<close>

text \<open>
  The toggle control of a document is the element that \<open>#npmFavesLink\<close> selects, and its
  pending action is the \<open>fave-action\<close> attribute of the link below it, which the click
  handler reads.
\<close>

definition toggleControl :: "node list \<Rightarrow> node option" where
  "toggleControl d =
     (case querySelector is_npmFavesLink d of
        Some p \<Rightarrow> node_at p d
      | None \<Rightarrow> None)"

definition faveAction :: "node \<Rightarrow> string option" where
  "faveAction faveButton =
     (case faveLinkOf faveButton of
        Some link \<Rightarrow> getAttribute link ''fave-action''
      | None \<Rightarrow> None)"

definition className :: "node \<Rightarrow> string option" where
  "className n = getAttribute n ''class''"

text \<open>
  A page can be rendered when at most one element carries the id of the control and, with
  that element taken out, the place for the button exists.
\<close>

definition renderable :: "node list \<Rightarrow> bool" where
  "renderable d =
     (count_nodes is_npmFavesLink d \<le> 1 \<and>
      (case injectionPoint (removeOldButton d) of Some target \<Rightarrow> True | None \<Rightarrow> False))"

fun is_notification :: "event \<Rightarrow> bool" where
  "is_notification (CreateNotification ty m b) = True"
| "is_notification e = False"

subsection \<open>Pages to run the script on\<close>

definition samplePage :: "node list" where
  "samplePage =
     [Element ''html'' []
        [Element ''head'' [] [],
         Element ''body'' []
           [Element ''div'' []
              [Element ''div'' [] [Element ''h2'' [] [TextNode ''left-pad'']],
               Element ''ul'' [(''role'', ''tablist'')] []]]]]"

definition captchaPage :: "node list" where
  "captchaPage =
     [Element ''html'' []
        [Element ''head'' [] [],
         Element ''body'' [] [Element ''div'' [(''id'', ''challenge'')] []]]]"

definition leftPad :: page where
  "leftPad = \<lparr>href = ''https://www.npmjs.com/package/left-pad'', hidden = False,
     doc = samplePage, trace = [], pending = []\<rparr>"

definition versionPage :: page where
  "versionPage = \<lparr>href = ''https://www.npmjs.com/package/some-package/v/1.0.0'', hidden = False,
     doc = samplePage, trace = [], pending = []\<rparr>"

definition removeLink :: node where
  "removeLink = Element ''a'' [(''class'', ''pack-unfave''), (''fave-action'', ''removeFromFaves'')]
     [TextNode (CHR 0x0A # ''      ''),
      Element ''span'' [(''class'', ''material-icons-outlined'')] [TextNode ''delete''],
      TextNode (CHR 0x0A # ''      Remove from faves'' @ CHR 0x0A # ''    '')]"

definition addLink :: node where
  "addLink = Element ''a'' [(''class'', ''pack-unfave''), (''fave-action'', ''addToFaves'')]
     [TextNode (CHR 0x0A # ''      ''),
      Element ''span'' [(''class'', ''material-icons-outlined'')] [TextNode ''add''],
      TextNode (CHR 0x0A # ''      Add to faves'' @ CHR 0x0A # ''    '')]"

definition noFave :: "unit storage" where
  "noFave = (\<lambda>k. Inr None)"

definition hasFave :: "unit storage" where
  "hasFave = (\<lambda>k. Inr (Some ()))"

text \<open>
  A page with the tab list, where the first element child of the parent of the tab list has
  no element child: \<open>children[0].children[0]\<close> is \<open>undefined\<close> there.
\<close>

definition emptyHeaderPage :: "node list" where
  "emptyHeaderPage =
     [Element ''html'' []
        [Element ''head'' [] [],
         Element ''body'' []
           [Element ''div'' []
              [Element ''div'' [] [],
               Element ''ul'' [(''role'', ''tablist'')] []]]]]"

definition emptyHeader :: page where
  "emptyHeader = \<lparr>href = ''https://www.npmjs.com/package/left-pad'', hidden = False,
     doc = emptyHeaderPage, trace = [], pending = []\<rparr>"

definition captcha :: page where
  "captcha = \<lparr>href = ''https://www.npmjs.com/package/left-pad'', hidden = False,
     doc = captchaPage, trace = [], pending = []\<rparr>"

text \<open>
  The sample page showing "Remove from faves", the same page after a click on that link,
  and the message that the bus delivers for a removal of \<open>left-pad\<close>.
\<close>

definition removePage :: page where
  "removePage = addButtonToPage hasFave None leftPad"

definition clickedPage :: page where
  "clickedPage = handleFaveLinkClick removeLink removePage"

definition removeMessage :: message where
  "removeMessage = \<lparr>action = ''remove'', packageName = Some ''left-pad''\<rparr>"

section \<open>Properties\<close>

subsection \<open>Searching and changing the document\<close>

text \<open>
  The selectors of the script look at the tag and the attributes of an element only, never
  at its children; the lemmas that need this take it as an assumption.
\<close>

lemma count_nodes_append:
  "count_nodes sel (xs @ ys) = count_nodes sel xs + count_nodes sel ys"
  by (induction sel xs rule: count_nodes.induct) auto

lemma querySelector_None_iff:
  "querySelector sel ns = None \<longleftrightarrow> count_nodes sel ns = 0"
  by (induction sel ns rule: querySelector.induct) (auto split: option.splits)

lemma node_at_shift:
  "node_at (shift p) (n # ns) = node_at p ns"
  by (cases p) auto

lemma update_at_shift:
  "update_at (shift p) f (n # ns) = n # update_at p f ns"
  by (cases p) auto

lemma querySelector_node_at:
  "querySelector sel ns = Some p \<Longrightarrow>
   \<exists>t atts cs. node_at p ns = Some (Element t atts cs) \<and> sel (Element t atts cs)"
proof (induction sel ns arbitrary: p rule: querySelector.induct)
  case (1 sel)
  then show ?case by simp
next
  case (2 sel s ns)
  then show ?case by (auto simp: node_at_shift)
next
  case (3 sel t atts cs ns)
  show ?case
  proof (cases "sel (Element t atts cs)")
    case True
    with 3 show ?thesis by auto
  next
    case False
    note nosel = this
    show ?thesis
    proof (cases "querySelector sel cs")
      case None
      with 3 nosel show ?thesis by (auto simp: node_at_shift)
    next
      case (Some q)
      with 3 nosel have p: "p = 0 # q" by simp
      from "3.IH"(1)[OF nosel Some] obtain t' atts' cs' where
        "node_at q cs = Some (Element t' atts' cs')" "sel (Element t' atts' cs')" by blast
      moreover from this have "q \<noteq> []" by auto
      ultimately show ?thesis using p by (cases q) auto
    qed
  qed
qed

lemma count_update_at:
  assumes shallow: "\<And>t atts cs cs'. sel (Element t atts cs) = sel (Element t atts cs')"
  shows "node_at p ns = Some n \<Longrightarrow>
   count_nodes sel (update_at p f ns) + count_nodes sel [n] =
   count_nodes sel ns + count_nodes sel (f n)"
proof (induction p f ns rule: update_at.induct)
  case (3 f n' ns)
  then show ?case by (simp add: count_nodes_append) (cases n; simp)
next
  case (4 v va f t atts cs ns)
  then show ?case using shallow[of t atts cs "update_at (v # va) f cs"] by auto
next
  case (6 i p f n' ns)
  then show ?case by (cases n') auto
qed auto

lemma is_npmFavesLink_shallow:
  "is_npmFavesLink (Element t atts cs) = is_npmFavesLink (Element t atts cs')"
  by (simp add: is_npmFavesLink_def)

lemma count_removeOldButton:
  assumes "count_nodes is_npmFavesLink d \<le> 1"
  shows "count_nodes is_npmFavesLink (removeOldButton d) = 0"
proof (cases "querySelector is_npmFavesLink d")
  case None
  then have "count_nodes is_npmFavesLink d = 0" by (simp add: querySelector_None_iff)
  with None show ?thesis by (simp add: removeOldButton_def)
next
  case (Some p)
  then obtain t atts cs where n: "node_at p d = Some (Element t atts cs)"
      "is_npmFavesLink (Element t atts cs)"
    using querySelector_node_at by blast
  from count_update_at[of is_npmFavesLink p d _ "\<lambda>n. []", OF is_npmFavesLink_shallow n(1)] n(2) assms
  show ?thesis by (simp add: removeOldButton_def removeChild_def Some)
qed

lemma querySelector_snoc:
  "querySelector sel xs = None \<Longrightarrow> sel (Element t atts cs) \<Longrightarrow>
   querySelector sel (xs @ [Element t atts cs]) = Some [length xs]"
  by (induction sel xs rule: querySelector.induct) (auto split: option.splits if_splits)

lemma querySelector_appended:
  assumes shallow: "\<And>t atts cs cs'. sel (Element t atts cs) = sel (Element t atts cs')"
    and b: "sel (Element bt batts bcs)"
  shows "node_at q ns = Some (Element t atts cs) \<Longrightarrow> count_nodes sel ns = 0 \<Longrightarrow>
    querySelector sel (update_at q (\<lambda>n. [append_node (Element bt batts bcs) n]) ns) = Some (q @ [length cs])"
proof (induction q "\<lambda>n. [append_node (Element bt batts bcs) n]" ns rule: update_at.induct)
  case (3 n ns)
  then show ?case using b shallow[of t atts cs "cs @ [Element bt batts bcs]"]
    by (auto simp: querySelector_snoc querySelector_None_iff)
next
  case (4 v va t' atts' cs' ns)
  then show ?case using shallow[of t' atts' cs' "update_at (v # va) (\<lambda>n. [append_node (Element bt batts bcs) n]) cs'"]
    by auto
next
  case (6 i p n ns)
  then show ?case by (cases n) (auto simp: querySelector_None_iff split: option.splits if_splits)
qed auto

lemma node_at_snoc:
  "node_at [length xs] (xs @ [b]) = Some b"
  by (induction xs) auto

lemma update_at_snoc:
  "update_at [length xs] (\<lambda>n. []) (xs @ [b]) = xs"
  by (induction xs) auto

lemma node_at_appended:
  "node_at q ns = Some (Element t atts cs) \<Longrightarrow>
   node_at (q @ [length cs]) (update_at q (\<lambda>n. [append_node b n]) ns) = Some b"
proof (induction q "\<lambda>n. [append_node b n]" ns rule: update_at.induct)
  case (3 n ns)
  then show ?case using node_at_snoc[of cs b] by (cases cs) auto
next
  case (4 v va t' atts' cs' ns)
  then show ?case by auto
qed auto

lemma remove_appended:
  "node_at q ns = Some (Element t atts cs) \<Longrightarrow>
   update_at (q @ [length cs]) (\<lambda>n. []) (update_at q (\<lambda>n. [append_node b n]) ns) = ns"
proof (induction q "\<lambda>n. [append_node b n]" ns rule: update_at.induct)
  case (3 n ns)
  then show ?case using update_at_snoc[of cs b] by (cases cs) auto
next
  case (4 v va t' atts' cs' ns)
  then show ?case by auto
qed auto

lemma node_at_child:
  "node_at p ns = Some (Element t atts cs) \<Longrightarrow> node_at (p @ [i]) ns = node_at [i] cs"
proof (induction p ns rule: node_at.induct)
  case (3 n ns)
  then show ?case by (cases cs) auto
qed auto

lemma firstElementIndex_element:
  "firstElementIndex cs = Some i \<Longrightarrow> \<exists>t atts cs'. node_at [i] cs = Some (Element t atts cs')"
  by (induction cs arbitrary: i rule: firstElementIndex.induct) auto

lemma children0_element:
  assumes "children0 p d = Some c"
  shows "\<exists>t atts cs. node_at c d = Some (Element t atts cs)"
proof -
  from assms obtain t atts cs i where p: "node_at p d = Some (Element t atts cs)"
      and i: "firstElementIndex cs = Some i" and c: "c = p @ [i]"
    by (auto simp: children0_def split: option.splits node.splits)
  from firstElementIndex_element[OF i] node_at_child[OF p, of i] c show ?thesis by simp
qed

lemma injectionPoint_element:
  "injectionPoint d = Some q \<Longrightarrow> \<exists>t atts cs. node_at q d = Some (Element t atts cs)"
  by (auto simp: injectionPoint_def split: option.splits dest: children0_element)

subsection \<open>The button and one call of createFavesButton\<close>

lemma faveLink_found:
  "faveLinkOf (getFaveButtonElement True) = Some addLink"
  "faveLinkOf (getFaveButtonElement False) = Some removeLink"
  by (simp_all add: getFaveButtonElement_def addLink_def removeLink_def)

lemma faveButton_is_link: "is_npmFavesLink (getFaveButtonElement b)"
  by (simp add: getFaveButtonElement_def is_npmFavesLink_def)

lemma faveButton_count: "count_nodes is_npmFavesLink [getFaveButtonElement b] = 1"
  by (simp add: getFaveButtonElement_def is_npmFavesLink_def)

lemma faveButton_Element: "\<exists>atts cs. getFaveButtonElement b = Element ''div'' atts cs"
  by (simp add: getFaveButtonElement_def)

text \<open>One call of \<open>createFavesButton\<close> on a page that can be rendered.\<close>

lemma createFavesButton_renderable:
  assumes "renderable d"
  shows "\<exists>d'. createFavesButton b d = Inr d' \<and>
           toggleControl d' = Some (getFaveButtonElement b) \<and>
           count_nodes is_npmFavesLink d' = 1 \<and>
           removeOldButton d' = removeOldButton d"
proof -
  let ?d1 = "removeOldButton d"
  let ?b = "getFaveButtonElement b"
  from assms obtain q where q: "injectionPoint ?d1 = Some q"
    by (auto simp: renderable_def split: option.splits)
  then obtain t atts cs where n: "node_at q ?d1 = Some (Element t atts cs)"
    using injectionPoint_element by blast
  from assms have c0: "count_nodes is_npmFavesLink ?d1 = 0"
    by (simp add: renderable_def count_removeOldButton)
  let ?d' = "appendChild q ?b ?d1"
  have res: "createFavesButton b d = Inr ?d'"
    by (cases b) (simp_all add: createFavesButton_def Let_def faveLink_found q)
  obtain batts bcs where bel: "?b = Element ''div'' batts bcs"
    using faveButton_Element by blast
  have sel: "is_npmFavesLink (Element ''div'' batts bcs)"
    using faveButton_is_link[of b] bel by simp
  have qs: "querySelector is_npmFavesLink ?d' = Some (q @ [length cs])"
    using querySelector_appended[of is_npmFavesLink "''div''" batts bcs q ?d1 t atts cs,
        OF is_npmFavesLink_shallow sel n c0]
    by (simp add: appendChild_def bel)
  have at: "node_at (q @ [length cs]) ?d' = Some ?b"
    using node_at_appended[OF n, of ?b] by (simp add: appendChild_def)
  have cnt: "count_nodes is_npmFavesLink ?d' = 1"
    using count_update_at[of is_npmFavesLink q ?d1 _ "\<lambda>n. [append_node ?b n]",
        OF is_npmFavesLink_shallow n] c0 faveButton_count[of b]
      is_npmFavesLink_shallow[of t atts "cs @ [?b]" cs]
    by (simp add: appendChild_def count_nodes_append)
  have rem: "removeOldButton ?d' = ?d1"
    using remove_appended[OF n, of ?b] qs
    by (simp add: removeOldButton_def removeChild_def appendChild_def)
  show ?thesis using res qs at cnt rem by (simp add: toggleControl_def)
qed

lemma createFavesButton_keeps_renderable:
  assumes "renderable d" "createFavesButton b d = Inr d'"
  shows "renderable d'"
  using createFavesButton_renderable[OF assms(1), of b] assms
  by (auto simp: renderable_def)

subsection \<open>Rendering\<close>

lemma createFavesButton_injects:
  assumes q: "injectionPoint (removeOldButton d) = Some target"
  shows "\<exists>t atts cs.
           node_at target (removeOldButton d) = Some (Element t atts cs) \<and>
           createFavesButton b d =
             Inr (appendChild target (getFaveButtonElement b) (removeOldButton d)) \<and>
           node_at (target @ [length cs])
             (appendChild target (getFaveButtonElement b) (removeOldButton d)) =
             Some (getFaveButtonElement b)"
proof -
  obtain t atts cs where n: "node_at target (removeOldButton d) = Some (Element t atts cs)"
    using injectionPoint_element[OF q] by blast
  have "createFavesButton b d =
      Inr (appendChild target (getFaveButtonElement b) (removeOldButton d))"
    by (cases b) (simp_all add: createFavesButton_def Let_def faveLink_found q)
  moreover have "node_at (target @ [length cs])
      (appendChild target (getFaveButtonElement b) (removeOldButton d)) =
      Some (getFaveButtonElement b)"
    using node_at_appended[OF n] by (simp add: appendChild_def)
  ultimately show ?thesis using n by blast
qed

lemma addButtonToPage_doc:
  "doc (addButtonToPage getFave message s) = doc (addButtonToPage getFave message' s)"
  by (simp add: addButtonToPage_def Let_def console_log_def split: sum.splits option.splits prod.splits)

lemma addButtonToPage_trace_nth:
  "trace (addButtonToPage getFave message s) ! length (trace s) =
     GetFave (getPackageNameFromUrl (href s)) False"
  by (simp add: addButtonToPage_def Let_def console_log_def nth_append
      split: sum.splits option.splits prod.splits)

lemma addButtonToPage_renderable:
  assumes r: "renderable (doc s)"
    and g: "getFave (getPackageNameFromUrl (href s)) = Inr fave"
  shows "toggleControl (doc (addButtonToPage getFave message s)) =
           Some (getFaveButtonElement (fave = None))"
    and "count_nodes is_npmFavesLink (doc (addButtonToPage getFave message s)) = 1"
    and "renderable (doc (addButtonToPage getFave message s))"
    and "href (addButtonToPage getFave message s) = href s"
    and "trace (addButtonToPage getFave message s) =
           trace s @ GetFave (getPackageNameFromUrl (href s)) False #
             (case message of
                None \<Rightarrow> []
              | Some m \<Rightarrow> if m \<noteq> [] then [CreateNotification INFO m False] else [])"
    and "pending (addButtonToPage getFave message s) = pending s"
proof -
  let ?b = "case fave of Some f \<Rightarrow> False | None \<Rightarrow> True"
  have b: "?b = (fave = None)" by (cases fave) auto
  from createFavesButton_renderable[OF r, of ?b] obtain d' where
    d': "createFavesButton ?b (doc s) = Inr d'"
      "toggleControl d' = Some (getFaveButtonElement ?b)"
      "count_nodes is_npmFavesLink d' = 1"
      "removeOldButton d' = removeOldButton (doc s)"
    by blast
  have rd: "renderable d'"
    using createFavesButton_keeps_renderable[OF r d'(1)] .
  have doc: "doc (addButtonToPage getFave message s) = d'"
    using g d'(1) by (simp add: addButtonToPage_def Let_def split: option.splits)
  show "toggleControl (doc (addButtonToPage getFave message s)) =
           Some (getFaveButtonElement (fave = None))"
    using doc d'(2) b by simp
  show "count_nodes is_npmFavesLink (doc (addButtonToPage getFave message s)) = 1"
    using doc d'(3) by simp
  show "renderable (doc (addButtonToPage getFave message s))"
    using doc rd by simp
  show "href (addButtonToPage getFave message s) = href s"
    using g d'(1) by (simp add: addButtonToPage_def Let_def split: option.splits)
  show "trace (addButtonToPage getFave message s) =
           trace s @ GetFave (getPackageNameFromUrl (href s)) False #
             (case message of
                None \<Rightarrow> []
              | Some m \<Rightarrow> if m \<noteq> [] then [CreateNotification INFO m False] else [])"
    using g d'(1) by (simp add: addButtonToPage_def Let_def split: option.splits)
  show "pending (addButtonToPage getFave message s) = pending s"
    using g d'(1) by (simp add: addButtonToPage_def Let_def split: option.splits)
qed

lemma faveAction_button:
  "faveAction (getFaveButtonElement b) = Some (if b then ''addToFaves'' else ''removeFromFaves'')"
  by (cases b) (simp_all add: faveAction_def faveLink_found addLink_def removeLink_def)

text \<open>
  C1. A render shows what the storage answers at that moment. When \<open>getFave\<close> fulfils and
  the place for the button exists, the element appended there is the button for the answer:
  "Add to faves" with the action \<open>addToFaves\<close> when there is no record, "Remove from faves"
  with \<open>removeFromFaves\<close> when there is one; on a page with at most one element of that id
  it is the element that \<open>#npmFavesLink\<close> selects afterwards. Every render asks the storage
  first: the call after the calls made so far is \<open>getFave\<close> for the identifier of the page,
  without refresh. The render that follows a response does not look at the response: it
  leaves the same document as any other render in that state.
\<close>

theorem render_reflects_store:
  assumes "getFave (getPackageNameFromUrl (href s)) = Inr fave"
    and "injectionPoint (removeOldButton (doc s)) = Some target"
  shows "(\<exists>t atts cs.
            node_at target (removeOldButton (doc s)) = Some (Element t atts cs) \<and>
            node_at (target @ [length cs]) (doc (addButtonToPage getFave message s)) =
              Some (getFaveButtonElement (fave = None))) \<and>
         (count_nodes is_npmFavesLink (doc s) \<le> 1 \<longrightarrow>
            toggleControl (doc (addButtonToPage getFave message s)) =
              Some (getFaveButtonElement (fave = None))) \<and>
         faveAction (getFaveButtonElement (fave = None)) =
           Some (if fave = None then ''addToFaves'' else ''removeFromFaves'') \<and>
         trace (addButtonToPage getFave message s) ! length (trace s) =
           GetFave (getPackageNameFromUrl (href s)) False \<and>
         (\<forall>displayMessage r. \<exists>s'.
            sendMessage_callback getFave displayMessage (Some r) s = Inr s' \<and>
            doc s' = doc (addButtonToPage getFave message s))"
proof -
  let ?b = "case fave of Some f \<Rightarrow> False | None \<Rightarrow> True"
  have b: "?b = (fave = None)" by (cases fave) auto
  from createFavesButton_injects[OF assms(2), of ?b] obtain t atts cs where
    n: "node_at target (removeOldButton (doc s)) = Some (Element t atts cs)"
    and c: "createFavesButton ?b (doc s) =
       Inr (appendChild target (getFaveButtonElement ?b) (removeOldButton (doc s)))"
    and a: "node_at (target @ [length cs])
       (appendChild target (getFaveButtonElement ?b) (removeOldButton (doc s))) =
       Some (getFaveButtonElement ?b)"
    by blast
  have doc: "doc (addButtonToPage getFave message s) =
      appendChild target (getFaveButtonElement ?b) (removeOldButton (doc s))"
    using assms(1) c by (simp add: addButtonToPage_def Let_def split: option.splits)
  have 1: "\<exists>t atts cs.
            node_at target (removeOldButton (doc s)) = Some (Element t atts cs) \<and>
            node_at (target @ [length cs]) (doc (addButtonToPage getFave message s)) =
              Some (getFaveButtonElement (fave = None))"
    using n a doc b by auto
  have 2: "toggleControl (doc (addButtonToPage getFave message s)) =
              Some (getFaveButtonElement (fave = None))"
    if "count_nodes is_npmFavesLink (doc s) \<le> 1"
  proof -
    from that assms(2) have "renderable (doc s)" by (simp add: renderable_def)
    from addButtonToPage_renderable(1)[where getFave = getFave, OF this assms(1)]
    show ?thesis .
  qed
  have 5: "\<exists>s'. sendMessage_callback getFave displayMessage (Some r) s = Inr s' \<and>
            doc s' = doc (addButtonToPage getFave message s)" for displayMessage r
    using addButtonToPage_doc[of getFave _ s message]
    by (simp add: sendMessage_callback_def)
  show ?thesis
    using 1 2 5 faveAction_button[of "fave = None"] addButtonToPage_trace_nth[of getFave message s]
    by blast
qed

text \<open>The sample page.\<close>

lemma leftPad_facts:
  "getPackageNameFromUrl (href leftPad) = Some ''left-pad''"
  "injectionPoint (removeOldButton (doc leftPad)) = Some [0, 1, 0, 0, 0]"
  "count_nodes is_npmFavesLink (doc leftPad) = 0"
  "renderable (doc leftPad)"
  by (simp_all add: leftPad_def samplePage_def getPackageNameFromUrl_def split_def
      renderable_def injectionPoint_def removeOldButton_def is_npmFavesLink_def is_tablist_def
      parentElement_def children0_def)

theorem render_reflects_store_witness:
  "hasFave (getPackageNameFromUrl (href leftPad)) = Inr (Some ()) \<and>
   injectionPoint (removeOldButton (doc leftPad)) = Some [0, 1, 0, 0, 0] \<and>
   count_nodes is_npmFavesLink (doc leftPad) \<le> 1 \<and>
   toggleControl (doc (addButtonToPage hasFave None leftPad)) = Some (getFaveButtonElement False) \<and>
   faveAction (getFaveButtonElement False) = Some ''removeFromFaves''"
proof -
  have h1: "hasFave (getPackageNameFromUrl (href leftPad)) = Inr (Some ())"
    by (simp add: hasFave_def)
  have h2: "injectionPoint (removeOldButton (doc leftPad)) = Some [0, 1, 0, 0, 0]"
    by (rule leftPad_facts)
  have h3: "count_nodes is_npmFavesLink (doc leftPad) \<le> 1"
    by (simp add: leftPad_facts)
  show ?thesis
    using render_reflects_store[where getFave = hasFave and message = None, OF h1 h2] h1 h2 h3
    by simp
qed

text \<open>
  The two halves, run one after the other, are the whole function.
\<close>

lemma addButtonToPage_split:
  "addButtonToPage getFave message s =
     addButtonToPage_resume (getFave (getPackageNameFromUrl (href s))) message
       (addButtonToPage_call s)"
  by (simp add: addButtonToPage_def addButtonToPage_resume_def addButtonToPage_call_def Let_def
      split: sum.splits)

lemma addButtonToPage_call_fields:
  "doc ((addButtonToPage_call ^^ n) s) = doc s"
  "href ((addButtonToPage_call ^^ n) s) = href s"
  "pending ((addButtonToPage_call ^^ n) s) = pending s"
  by (induction n) (simp_all add: addButtonToPage_call_def Let_def)

lemma addButtonToPage_resume_rejected:
  "doc (addButtonToPage_resume (Inl error) message s) = doc s"
  by (simp add: addButtonToPage_resume_def console_log_def)

lemma addButtonToPage_resume_fulfilled:
  assumes "renderable (doc s)"
  shows "toggleControl (doc (addButtonToPage_resume (Inr fave) message s)) =
           Some (getFaveButtonElement (fave = None))"
    and "count_nodes is_npmFavesLink (doc (addButtonToPage_resume (Inr fave) message s)) = 1"
    and "renderable (doc (addButtonToPage_resume (Inr fave) message s))"
proof -
  let ?b = "case fave of Some f \<Rightarrow> False | None \<Rightarrow> True"
  have b: "?b = (fave = None)" by (cases fave) auto
  from createFavesButton_renderable[OF assms, of ?b] obtain d' where
    d': "createFavesButton ?b (doc s) = Inr d'"
      "toggleControl d' = Some (getFaveButtonElement ?b)"
      "count_nodes is_npmFavesLink d' = 1"
    by blast
  have doc: "doc (addButtonToPage_resume (Inr fave) message s) = d'"
    using d'(1) by (simp add: addButtonToPage_resume_def Let_def split: option.splits)
  show "toggleControl (doc (addButtonToPage_resume (Inr fave) message s)) =
           Some (getFaveButtonElement (fave = None))"
    using doc d'(2) b by simp
  show "count_nodes is_npmFavesLink (doc (addButtonToPage_resume (Inr fave) message s)) = 1"
    using doc d'(3) by simp
  show "renderable (doc (addButtonToPage_resume (Inr fave) message s))"
    using doc createFavesButton_keeps_renderable[OF assms d'(1)] by simp
qed

lemma resumes_append:
  "resumes (xs @ ys) s = resumes ys (resumes xs s)"
  by (induction xs arbitrary: s) auto

lemma resumes_renderable:
  "renderable (doc s) \<Longrightarrow> renderable (doc (resumes settled s))"
proof (induction settled arbitrary: s)
  case Nil
  then show ?case by simp
next
  case (Cons c settled)
  obtain v message where c: "c = (v, message)" by (cases c)
  have "renderable (doc (addButtonToPage_resume v message s))"
  proof (cases v)
    case (Inl error)
    then show ?thesis using Cons.prems by (simp add: addButtonToPage_resume_rejected)
  next
    case (Inr fave)
    then show ?thesis using addButtonToPage_resume_fulfilled(3)[OF Cons.prems] by simp
  qed
  from Cons.IH[OF this] c show ?case by simp
qed

lemma resumes_count:
  assumes "renderable (doc s)"
    and "count_nodes is_npmFavesLink (doc s) = 1 \<or> (\<exists>c\<in>set settled. \<exists>fave. fst c = Inr fave)"
  shows "count_nodes is_npmFavesLink (doc (resumes settled s)) = 1"
  using assms
proof (induction settled arbitrary: s)
  case Nil
  then show ?case by simp
next
  case (Cons c settled)
  obtain v message where c: "c = (v, message)" by (cases c)
  show ?case
  proof (cases v)
    case (Inl error)
    have d: "doc (addButtonToPage_resume v message s) = doc s"
      using Inl by (simp add: addButtonToPage_resume_rejected)
    from Cons.prems(2) Inl c have
      "count_nodes is_npmFavesLink (doc s) = 1 \<or> (\<exists>c\<in>set settled. \<exists>fave. fst c = Inr fave)"
      by auto
    with Cons.IH[of "addButtonToPage_resume v message s"] Cons.prems(1) d c
    show ?thesis by simp
  next
    case (Inr fave)
    note f = addButtonToPage_resume_fulfilled[OF Cons.prems(1), of fave message]
    from Cons.IH[of "addButtonToPage_resume v message s"] f(2,3) Inr c
    show ?thesis by simp
  qed
qed

text \<open>
  C2, as far as it holds. On a page that can be rendered, \<open>N \<ge> 1\<close> calls of the render
  routine in a row leave exactly one element with the id \<open>npmFavesLink\<close> once at least one
  of the queries of the storage fulfils, in whatever order the answers settle: every second
  half removes the existing control before it appends a fresh one. When the answer that
  settles last is a fulfilment, the control is the button for that answer.
\<close>

theorem render_idempotent:
  assumes "renderable (doc s)"
    and "1 \<le> length settled"
    and "\<exists>c\<in>set settled. \<exists>fave. fst c = Inr fave"
  shows "count_nodes is_npmFavesLink (doc (rendersInARow settled s)) = 1 \<and>
         (\<forall>earlier fave message. settled = earlier @ [(Inr fave, message)] \<longrightarrow>
            toggleControl (doc (rendersInARow settled s)) =
              Some (getFaveButtonElement (fave = None)))"
proof -
  let ?s = "(addButtonToPage_call ^^ length settled) s"
  have r: "renderable (doc ?s)"
    using assms(1) by (simp add: addButtonToPage_call_fields)
  have "count_nodes is_npmFavesLink (doc (rendersInARow settled s)) = 1"
    unfolding rendersInARow_def using resumes_count[OF r] assms(3) by blast
  moreover have "toggleControl (doc (rendersInARow settled s)) =
              Some (getFaveButtonElement (fave = None))"
    if "settled = earlier @ [(Inr fave, message)]" for earlier fave message
  proof -
    have "resumes settled t = addButtonToPage_resume (Inr fave) message (resumes earlier t)"
      for t
      using that by (simp add: resumes_append)
    then have "rendersInARow settled s =
        addButtonToPage_resume (Inr fave) message (resumes earlier ?s)"
      by (simp add: rendersInARow_def)
    then show ?thesis
      using addButtonToPage_resume_fulfilled(1)[OF resumes_renderable[OF r, of earlier]]
      by simp
  qed
  ultimately show ?thesis by blast
qed

theorem render_idempotent_witness:
  "renderable (doc leftPad) \<and>
   count_nodes is_npmFavesLink
     (doc (rendersInARow [(Inr None, None), (Inl (OtherError ''storage''), None),
             (Inr (Some ()), Some ''Package added to faves :)'')] leftPad)) = 1 \<and>
   toggleControl
     (doc (rendersInARow [(Inr None, None), (Inl (OtherError ''storage''), None),
             (Inr (Some ()), Some ''Package added to faves :)'')] leftPad)) =
     Some (getFaveButtonElement False)"
proof -
  let ?settled = "[(Inr None, None), (Inl (OtherError ''storage''), None),
             (Inr (Some ()), Some ''Package added to faves :)'')] ::
             ((js_error + unit option) \<times> string option) list"
  have h1: "renderable (doc leftPad)" by (rule leftPad_facts)
  have h2: "1 \<le> length ?settled" by simp
  have h3: "\<exists>c\<in>set ?settled. \<exists>fave. fst c = Inr fave" by simp
  have h4: "?settled = [(Inr None, None), (Inl (OtherError ''storage''), None)] @
      [(Inr (Some ()), Some ''Package added to faves :)'')]" by simp
  from render_idempotent[OF h1 h2 h3] h4
  have "count_nodes is_npmFavesLink (doc (rendersInARow ?settled leftPad)) = 1 \<and>
    toggleControl (doc (rendersInARow ?settled leftPad)) =
      Some (getFaveButtonElement (Some () = None))"
    by blast
  then show ?thesis using h1 by simp
qed

lemma emptyHeader_facts:
  "validatePageContent (doc emptyHeader)"
  "injectionPoint (doc emptyHeader) = None"
  "removeOldButton (doc emptyHeader) = doc emptyHeader"
  "count_nodes is_npmFavesLink (doc emptyHeader) = 0"
  by (simp_all add: emptyHeader_def emptyHeaderPage_def validatePageContent_def
      injectionPoint_def removeOldButton_def is_npmFavesLink_def is_tablist_def
      parentElement_def children0_def)

text \<open>
  C2 as it is written fails. On a page with the tab list that \<open>validatePageContent\<close>
  accepts, where the first element child of the parent of the tab list has no element
  child, the \<open>append\<close> of line 103 throws: one render leaves no control, and two renders
  in a row leave none either.
\<close>

theorem render_without_injection_point:
  "validatePageContent (doc emptyHeader) \<and>
   count_nodes is_npmFavesLink (doc (addButtonToPage noFave None emptyHeader)) = 0 \<and>
   count_nodes is_npmFavesLink
     (doc (rendersInARow [(Inr None, None), (Inr (Some ()), None)] emptyHeader)) = 0"
proof -
  have c: "createFavesButton b (doc emptyHeader) = Inl (TypeError, doc emptyHeader)" for b
    by (cases b) (simp_all add: createFavesButton_def Let_def faveLink_found emptyHeader_facts)
  have r: "doc (addButtonToPage_resume (Inr fave) message s) = doc emptyHeader"
    if "doc s = doc emptyHeader" for fave :: "unit option" and message s
    using c that by (simp add: addButtonToPage_resume_def Let_def console_log_def)
  have 1: "doc (addButtonToPage noFave None emptyHeader) = doc emptyHeader"
    by (simp add: addButtonToPage_split noFave_def r addButtonToPage_call_def)
  have 2: "doc (rendersInARow [(Inr None, None), (Inr (Some ()), None)] emptyHeader) =
      doc emptyHeader"
    by (simp add: rendersInARow_def r addButtonToPage_call_fields[of 2, simplified]
        numeral_2_eq_2 addButtonToPage_call_def)
  show ?thesis using 1 2 emptyHeader_facts by simp
qed

subsection \<open>The click handler\<close>

lemma node_at_update_same:
  "node_at p ns = Some n \<Longrightarrow> node_at p (update_at p (\<lambda>n. [g n]) ns) = Some (g n)"
  by (induction p "\<lambda>n. [g n]" ns rule: update_at.induct) auto

lemma remove_after_update:
  "update_at p (\<lambda>n. []) (update_at p (\<lambda>n. [g n]) ns) = update_at p (\<lambda>n. []) ns"
  by (induction p "\<lambda>n. [g n]" ns rule: update_at.induct) auto

lemma querySelector_update_same:
  "querySelector sel ns = Some p \<Longrightarrow>
   (\<And>t atts cs cs'. sel (Element t atts cs) = sel (Element t atts cs')) \<Longrightarrow>
   (\<And>t atts cs. sel (Element t atts cs) \<Longrightarrow>
      \<exists>atts'. g (Element t atts cs) = Element t atts' cs \<and> sel (Element t atts' cs)) \<Longrightarrow>
   querySelector sel (update_at p (\<lambda>n. [g n]) ns) = Some p"
proof (induction sel ns arbitrary: p rule: querySelector.induct)
  case (1 sel)
  then show ?case by simp
next
  case (2 sel s ns)
  from "2.prems"(1) obtain r where r: "querySelector sel ns = Some r" "p = shift r"
    by auto
  from "2.IH"[OF r(1) "2.prems"(2,3)] r(2) show ?case
    by (simp add: update_at_shift)
next
  case (3 sel t atts cs ns)
  show ?case
  proof (cases "sel (Element t atts cs)")
    case True
    with "3.prems"(1) have "p = [0]" by simp
    with "3.prems"(3)[OF True] show ?thesis by auto
  next
    case False
    note nosel = this
    show ?thesis
    proof (cases "querySelector sel cs")
      case None
      with "3.prems"(1) nosel obtain r where r: "querySelector sel ns = Some r" "p = shift r"
        by auto
      from "3.IH"(2)[OF nosel None r(1) "3.prems"(2,3)] r(2) nosel None show ?thesis
        by (simp add: update_at_shift)
    next
      case (Some q)
      with "3.prems"(1) nosel have p: "p = 0 # q" by simp
      from querySelector_node_at[OF Some] have "q \<noteq> []" by auto
      then obtain i r where q: "q = i # r" by (cases q) auto
      from "3.IH"(1)[OF nosel Some "3.prems"(2,3)] show ?thesis
        using p q nosel "3.prems"(2)[of t atts cs "update_at (i # r) (\<lambda>n. [g n]) cs"]
        by simp
    qed
  qed
qed

lemma is_npmFavesLink_setClassName:
  "is_npmFavesLink (Element t atts cs) \<Longrightarrow>
   \<exists>atts'. setClassName v (Element t atts cs) = Element t atts' cs \<and>
     is_npmFavesLink (Element t atts' cs)"
  by (simp add: is_npmFavesLink_def update_conv')

lemma disableButton_control:
  assumes "toggleControl d = Some n"
  shows "toggleControl (disableButton d) = Some (setClassName ''npmf_button npmf_disabled-button'' n)"
    and "className (setClassName ''npmf_button npmf_disabled-button'' n) =
           Some ''npmf_button npmf_disabled-button''"
    and "removeOldButton (disableButton d) = removeOldButton d"
proof -
  let ?g = "setClassName ''npmf_button npmf_disabled-button''"
  from assms obtain p where p: "querySelector is_npmFavesLink d = Some p" "node_at p d = Some n"
    by (auto simp: toggleControl_def split: option.splits)
  have d: "disableButton d = update_at p (\<lambda>n. [?g n]) d"
    using p by (simp add: disableButton_def)
  have q: "querySelector is_npmFavesLink (disableButton d) = Some p"
    unfolding d
    using querySelector_update_same[OF p(1), of ?g] is_npmFavesLink_setClassName
      is_npmFavesLink_shallow
    by blast
  show "toggleControl (disableButton d) = Some (?g n)"
    using q node_at_update_same[OF p(2), of ?g] by (simp add: toggleControl_def d)
  from querySelector_node_at[OF p(1)] p(2) obtain t atts cs where "n = Element t atts cs"
    by auto
  then show "className (?g n) = Some ''npmf_button npmf_disabled-button''"
    by (simp add: className_def update_conv')
  show "removeOldButton (disableButton d) = removeOldButton d"
    using q p(1) remove_after_update[of p ?g d]
    by (simp add: removeOldButton_def removeChild_def d)
qed

lemma handleFaveLinkClick_fields:
  "doc (handleFaveLinkClick this s) = disableButton (doc s)"
  "href (handleFaveLinkClick this s) = href s"
  "hidden (handleFaveLinkClick this s) = hidden s"
  "trace (handleFaveLinkClick this s) =
     trace s @ [SendMessage \<lparr>action = (if getAttribute this ''fave-action'' = Some ''addToFaves''
                                          then ''add'' else ''remove''),
                               packageName = getPackageNameFromUrl (href s)\<rparr>]"
  "pending (handleFaveLinkClick this s) =
     pending s @ [(\<lparr>action = (if getAttribute this ''fave-action'' = Some ''addToFaves''
                                   then ''add'' else ''remove''),
                        packageName = getPackageNameFromUrl (href s)\<rparr>,
                   if getAttribute this ''fave-action'' = Some ''addToFaves''
                   then ''Package added to faves :)'' else ''Package removed from faves :('')]"
  by (simp_all add: handleFaveLinkClick_def sendMessage_def Let_def)

text \<open>
  C7, as far as it holds. The click handler gives the existing control the disabled class
  and only then hands the message to the runtime: the state in which \<open>sendMessage\<close> is
  called is the state with the control disabled.
\<close>

theorem click_disables_before_send:
  "\<exists>m displayMessage.
     handleFaveLinkClick this s =
       sendMessage m displayMessage (s\<lparr>doc := disableButton (doc s)\<rparr>) \<and>
     pending (handleFaveLinkClick this s) = pending s @ [(m, displayMessage)] \<and>
     (\<forall>n. toggleControl (doc s) = Some n \<longrightarrow>
        toggleControl (disableButton (doc s)) =
          Some (setClassName ''npmf_button npmf_disabled-button'' n) \<and>
        className (setClassName ''npmf_button npmf_disabled-button'' n) =
          Some ''npmf_button npmf_disabled-button'')"
proof -
  have "\<exists>m displayMessage. handleFaveLinkClick this s =
       sendMessage m displayMessage (s\<lparr>doc := disableButton (doc s)\<rparr>) \<and>
     pending (handleFaveLinkClick this s) = pending s @ [(m, displayMessage)]"
    by (simp add: handleFaveLinkClick_def sendMessage_def Let_def)
  moreover have "toggleControl (disableButton (doc s)) =
          Some (setClassName ''npmf_button npmf_disabled-button'' n) \<and>
        className (setClassName ''npmf_button npmf_disabled-button'' n) =
          Some ''npmf_button npmf_disabled-button''"
    if "toggleControl (doc s) = Some n" for n
    using disableButton_control(1,2)[OF that] by blast
  ultimately show ?thesis by blast
qed

lemma count_disableButton:
  "count_nodes is_npmFavesLink (disableButton d) = count_nodes is_npmFavesLink d"
proof (cases "querySelector is_npmFavesLink d")
  case None
  then show ?thesis by (simp add: disableButton_def)
next
  case (Some p)
  let ?g = "setClassName ''npmf_button npmf_disabled-button''"
  from querySelector_node_at[OF Some] obtain t atts cs where
    n: "node_at p d = Some (Element t atts cs)" "is_npmFavesLink (Element t atts cs)" by blast
  from is_npmFavesLink_setClassName[OF n(2)] obtain atts' where
    g: "?g (Element t atts cs) = Element t atts' cs" "is_npmFavesLink (Element t atts' cs)"
    by blast
  from count_update_at[of is_npmFavesLink p d _ "\<lambda>n. [?g n]", OF is_npmFavesLink_shallow n(1)]
  show ?thesis using Some n(2) g
    by (simp add: disableButton_def del: setClassName.simps)
qed

lemma renderable_disableButton:
  assumes "renderable d"
  shows "renderable (disableButton d)"
proof (cases "toggleControl d")
  case None
  then have "querySelector is_npmFavesLink d = None"
    using querySelector_node_at[of is_npmFavesLink d]
    by (auto simp: toggleControl_def split: option.splits)
  then show ?thesis using assms by (simp add: disableButton_def)
next
  case (Some n)
  from disableButton_control(3)[OF Some] assms show ?thesis
    by (simp add: renderable_def count_disableButton)
qed

lemma removePage_facts:
  "renderable (doc removePage)"
  "toggleControl (doc removePage) = Some (getFaveButtonElement False)"
  "href removePage = ''https://www.npmjs.com/package/left-pad''"
  "pending removePage = []"
  "trace removePage = [GetFave (Some ''left-pad'') False]"
proof -
  have g: "hasFave (getPackageNameFromUrl (href leftPad)) = Inr (Some ())"
    by (simp add: hasFave_def)
  note r = addButtonToPage_renderable[where getFave = hasFave and message = None,
      OF leftPad_facts(4) g]
  show "renderable (doc removePage)" using r(3) by (simp add: removePage_def)
  show "toggleControl (doc removePage) = Some (getFaveButtonElement False)"
    using r(1) by (simp add: removePage_def)
  show "href removePage = ''https://www.npmjs.com/package/left-pad''"
    using r(4) by (simp add: removePage_def) (simp add: leftPad_def)
  show "pending removePage = []"
    using r(6) by (simp add: removePage_def) (simp add: leftPad_def)
  show "trace removePage = [GetFave (Some ''left-pad'') False]"
    using r(5) leftPad_facts(1) by (simp add: removePage_def) (simp add: leftPad_def)
qed

lemma clickedPage_facts:
  "renderable (doc clickedPage)"
  "href clickedPage = ''https://www.npmjs.com/package/left-pad''"
  "pending clickedPage = [(removeMessage, ''Package removed from faves :('')]"
  "getPackageNameFromUrl (href clickedPage) = Some ''left-pad''"
proof -
  show "renderable (doc clickedPage)"
    using renderable_disableButton[OF removePage_facts(1)]
    by (simp add: clickedPage_def handleFaveLinkClick_fields)
  show h: "href clickedPage = ''https://www.npmjs.com/package/left-pad''"
    by (simp add: clickedPage_def handleFaveLinkClick_fields removePage_facts)
  have p: "getPackageNameFromUrl ''https://www.npmjs.com/package/left-pad'' = Some ''left-pad''"
    using leftPad_facts(1) by (simp add: leftPad_def)
  show "pending clickedPage = [(removeMessage, ''Package removed from faves :('')]"
    using p by (simp add: clickedPage_def handleFaveLinkClick_fields removePage_facts
        removeLink_def removeMessage_def)
  show "getPackageNameFromUrl (href clickedPage) = Some ''left-pad''"
    using h p by simp
qed

theorem click_disables_before_send_witness:
  "toggleControl (doc removePage) = Some (getFaveButtonElement False) \<and>
   toggleControl (disableButton (doc removePage)) =
     Some (setClassName ''npmf_button npmf_disabled-button'' (getFaveButtonElement False)) \<and>
   className (setClassName ''npmf_button npmf_disabled-button'' (getFaveButtonElement False)) =
     Some ''npmf_button npmf_disabled-button''"
  using click_disables_before_send[of removeLink removePage] removePage_facts(2) by blast

text \<open>
  C7 as it is written fails. On the sample page showing "Remove from faves" the user clicks
  the link: the control is disabled and the request is pending. Before the response comes,
  the bus delivers a remove message for \<open>left-pad\<close>, the listener renders, and the
  document has a fresh control with the class \<open>npmf_confirm-button\<close> while the request of
  the click is still pending.
\<close>

theorem control_enabled_in_flight:
  "toggleControl (doc clickedPage) =
     Some (setClassName ''npmf_button npmf_disabled-button'' (getFaveButtonElement False)) \<and>
   pending clickedPage = [(removeMessage, ''Package removed from faves :('')] \<and>
   pending (onMessage noFave removeMessage clickedPage) =
     [(removeMessage, ''Package removed from faves :('')] \<and>
   toggleControl (doc (onMessage noFave removeMessage clickedPage)) =
     Some (getFaveButtonElement True) \<and>
   className (getFaveButtonElement True) = Some ''npmf_button npmf_confirm-button''"
proof -
  have g: "noFave (getPackageNameFromUrl (href clickedPage)) = Inr None"
    by (simp add: noFave_def)
  note r = addButtonToPage_renderable[where getFave = noFave
      and message = "Some ''Package removed from faves :(''", OF clickedPage_facts(1) g]
  have m: "onMessage noFave removeMessage clickedPage =
      addButtonToPage noFave (Some ''Package removed from faves :('') clickedPage"
    by (simp add: onMessage_def removeMessage_def clickedPage_facts(4))
  have d: "toggleControl (doc clickedPage) =
     Some (setClassName ''npmf_button npmf_disabled-button'' (getFaveButtonElement False))"
    using disableButton_control(1)[OF removePage_facts(2)]
    by (simp add: clickedPage_def handleFaveLinkClick_fields)
  have c: "className (getFaveButtonElement True) = Some ''npmf_button npmf_confirm-button''"
    by (simp add: className_def getFaveButtonElement_def)
  show ?thesis
    using r(1) r(6) m d c clickedPage_facts(3) by simp
qed

subsection \<open>The listeners and the round trip of a click\<close>

text \<open>
  C3. A bus message with the action \<open>remove\<close> and the identifier of the page makes the
  listener render at once with the message "Package removed from faves :(". On a page that
  can be rendered and with a storage that answers, the control shown afterwards is the one
  for the answer and the notification with that message is created.
\<close>

theorem bus_remove_rerenders:
  assumes "action m = ''remove''"
    and "packageName m = getPackageNameFromUrl (href s)"
  shows "onMessage getFave m s =
           addButtonToPage getFave (Some ''Package removed from faves :('') s \<and>
         (\<forall>fave. renderable (doc s) \<and> getFave (getPackageNameFromUrl (href s)) = Inr fave \<longrightarrow>
            toggleControl (doc (onMessage getFave m s)) =
              Some (getFaveButtonElement (fave = None)) \<and>
            trace (onMessage getFave m s) =
              trace s @ [GetFave (getPackageNameFromUrl (href s)) False,
                         CreateNotification INFO ''Package removed from faves :('' False])"
proof -
  have m: "onMessage getFave m s =
      addButtonToPage getFave (Some ''Package removed from faves :('') s"
    using assms by (simp add: onMessage_def)
  have "toggleControl (doc (onMessage getFave m s)) =
              Some (getFaveButtonElement (fave = None)) \<and>
            trace (onMessage getFave m s) =
              trace s @ [GetFave (getPackageNameFromUrl (href s)) False,
                         CreateNotification INFO ''Package removed from faves :('' False]"
    if "renderable (doc s)" "getFave (getPackageNameFromUrl (href s)) = Inr fave" for fave
    using addButtonToPage_renderable(1,5)[where getFave = getFave
        and message = "Some ''Package removed from faves :(''", OF that] m
    by simp
  with m show ?thesis by blast
qed

theorem bus_remove_rerenders_witness:
  "action removeMessage = ''remove'' \<and>
   packageName removeMessage = getPackageNameFromUrl (href removePage) \<and>
   renderable (doc removePage) \<and>
   noFave (getPackageNameFromUrl (href removePage)) = Inr None \<and>
   toggleControl (doc (onMessage noFave removeMessage removePage)) =
     Some (getFaveButtonElement True) \<and>
   trace (onMessage noFave removeMessage removePage) =
     [GetFave (Some ''left-pad'') False, GetFave (Some ''left-pad'') False,
      CreateNotification INFO ''Package removed from faves :('' False]"
proof -
  have p: "getPackageNameFromUrl (href removePage) = Some ''left-pad''"
    using leftPad_facts(1) by (simp add: removePage_facts leftPad_def)
  have h1: "action removeMessage = ''remove''" by (simp add: removeMessage_def)
  have h2: "packageName removeMessage = getPackageNameFromUrl (href removePage)"
    using p by (simp add: removeMessage_def)
  have h3: "renderable (doc removePage)" by (rule removePage_facts)
  have h4: "noFave (getPackageNameFromUrl (href removePage)) = Inr None"
    by (simp add: noFave_def)
  from bus_remove_rerenders[where getFave = noFave, OF h1 h2] h3 h4
  have "toggleControl (doc (onMessage noFave removeMessage removePage)) =
          Some (getFaveButtonElement (None = (None :: unit option))) \<and>
        trace (onMessage noFave removeMessage removePage) =
          trace removePage @ [GetFave (getPackageNameFromUrl (href removePage)) False,
            CreateNotification INFO ''Package removed from faves :('' False]"
    by blast
  then show ?thesis
    using h1 h2 h3 h4 p by (simp add: removePage_facts)
qed

text \<open>
  C6. The click sends \<open>add\<close> for the action \<open>addToFaves\<close> and \<open>remove\<close> otherwise. When
  the runtime ends the round trip with a response, the page is rendered with a message
  that depends on the action sent and on \<open>result\<close> only: "Package added to faves :)" for
  \<open>add\<close> with a true result, "Package removed from faves :(" for \<open>remove\<close> with a true
  result, and "An error ocurred :(" for every response with a false result. On a page that
  can be rendered and with a storage that answers, the calls made since the click are the
  \<open>sendMessage\<close>, the \<open>getFave\<close> of the render and the notification with that message,
  and the control shown is the one for the answer.
\<close>

theorem click_round_trip_message:
  "\<exists>m. trace (handleFaveLinkClick this s) = trace s @ [SendMessage m] \<and>
     action m = (if getAttribute this ''fave-action'' = Some ''addToFaves''
                 then ''add'' else ''remove'') \<and>
     (\<forall>r. respond getFave (length (pending s)) (Some r) (handleFaveLinkClick this s) =
        Inr (addButtonToPage getFave
               (Some (if \<not> result r then ''An error ocurred :(''
                      else if action m = ''add'' then ''Package added to faves :)''
                      else ''Package removed from faves :(''))
               ((handleFaveLinkClick this s)\<lparr>pending := pending s\<rparr>))) \<and>
     (\<forall>r fave. renderable (doc s) \<and> getFave (getPackageNameFromUrl (href s)) = Inr fave \<longrightarrow>
        (\<exists>s'. respond getFave (length (pending s)) (Some r) (handleFaveLinkClick this s) = Inr s' \<and>
              trace s' =
                trace s @ [SendMessage m, GetFave (getPackageNameFromUrl (href s)) False,
                  CreateNotification INFO
                    (if \<not> result r then ''An error ocurred :(''
                     else if action m = ''add'' then ''Package added to faves :)''
                     else ''Package removed from faves :('') False] \<and>
              toggleControl (doc s') = Some (getFaveButtonElement (fave = None))))"
proof -
  let ?m = "\<lparr>action = (if getAttribute this ''fave-action'' = Some ''addToFaves''
                          then ''add'' else ''remove''),
               packageName = getPackageNameFromUrl (href s)\<rparr>"
  let ?s1 = "(handleFaveLinkClick this s)\<lparr>pending := pending s\<rparr>"
  let ?msg = "\<lambda>r. if \<not> result r then ''An error ocurred :(''
                 else if action ?m = ''add'' then ''Package added to faves :)''
                 else ''Package removed from faves :(''"
  have t: "trace (handleFaveLinkClick this s) = trace s @ [SendMessage ?m]"
    by (simp add: handleFaveLinkClick_fields)
  have e: "respond getFave (length (pending s)) (Some r) (handleFaveLinkClick this s) =
      Inr (addButtonToPage getFave (Some (?msg r)) ?s1)" for r
    by (simp add: handleFaveLinkClick_fields respond_def sendMessage_callback_def nth_append)
  have n: "trace (addButtonToPage getFave (Some (?msg r)) ?s1) =
             trace s @ [SendMessage ?m, GetFave (getPackageNameFromUrl (href s)) False,
               CreateNotification INFO (?msg r) False] \<and>
           toggleControl (doc (addButtonToPage getFave (Some (?msg r)) ?s1)) =
             Some (getFaveButtonElement (fave = None))"
    if "renderable (doc s)" "getFave (getPackageNameFromUrl (href s)) = Inr fave" for r fave
  proof -
    have r1: "renderable (doc ?s1)"
      using renderable_disableButton[OF that(1)] by (simp add: handleFaveLinkClick_fields)
    have g1: "getFave (getPackageNameFromUrl (href ?s1)) = Inr fave"
      using that(2) by (simp add: handleFaveLinkClick_fields)
    note a = addButtonToPage_renderable[where getFave = getFave and message = "Some (?msg r)",
        OF r1 g1]
    have ne: "?msg r \<noteq> []" by simp
    from a(5) ne have "trace (addButtonToPage getFave (Some (?msg r)) ?s1) =
        trace ?s1 @ [GetFave (getPackageNameFromUrl (href ?s1)) False,
          CreateNotification INFO (?msg r) False]"
      by (simp del: handleFaveLinkClick_fields)
    then show ?thesis using a(1) by (simp add: handleFaveLinkClick_fields)
  qed
  have "action ?m = (if getAttribute this ''fave-action'' = Some ''addToFaves''
                 then ''add'' else ''remove'')" by simp
  with t e n show ?thesis by (intro exI[of _ ?m]) (simp only: simp_thms, blast)
qed

theorem click_round_trip_message_witness:
  "renderable (doc removePage) \<and>
   noFave (getPackageNameFromUrl (href removePage)) = Inr None \<and>
   respond noFave 0 (Some \<lparr>result = True\<rparr>) clickedPage =
     Inr (addButtonToPage noFave (Some ''Package removed from faves :('')
            (clickedPage\<lparr>pending := []\<rparr>)) \<and>
   trace (addButtonToPage noFave (Some ''Package removed from faves :('')
            (clickedPage\<lparr>pending := []\<rparr>)) =
     [GetFave (Some ''left-pad'') False, SendMessage removeMessage,
      GetFave (Some ''left-pad'') False,
      CreateNotification INFO ''Package removed from faves :('' False] \<and>
   toggleControl (doc (addButtonToPage noFave (Some ''Package removed from faves :('')
            (clickedPage\<lparr>pending := []\<rparr>))) = Some (getFaveButtonElement True) \<and>
   respond noFave 0 (Some \<lparr>result = False\<rparr>) clickedPage =
     Inr (addButtonToPage noFave (Some ''An error ocurred :('')
            (clickedPage\<lparr>pending := []\<rparr>)) \<and>
   trace (addButtonToPage noFave (Some ''An error ocurred :('')
            (clickedPage\<lparr>pending := []\<rparr>)) =
     [GetFave (Some ''left-pad'') False, SendMessage removeMessage,
      GetFave (Some ''left-pad'') False,
      CreateNotification INFO ''An error ocurred :('' False]"
proof -
  have h1: "renderable (doc removePage)" by (rule removePage_facts)
  have h2: "noFave (getPackageNameFromUrl (href removePage)) = Inr None"
    by (simp add: noFave_def)
  have p: "getPackageNameFromUrl (href removePage) = Some ''left-pad''"
    using leftPad_facts(1) by (simp add: removePage_facts leftPad_def)
  have l: "getAttribute removeLink ''fave-action'' \<noteq> Some ''addToFaves''"
    by (simp add: removeLink_def)
  from click_round_trip_message[of removeLink removePage noFave]
  obtain m :: message where
    t: "trace (handleFaveLinkClick removeLink removePage) = trace removePage @ [SendMessage m]"
    and a: "action m = (if getAttribute removeLink ''fave-action'' = Some ''addToFaves''
                 then ''add'' else ''remove'')"
    and e: "\<forall>r. respond noFave (length (pending removePage)) (Some r)
              (handleFaveLinkClick removeLink removePage) =
        Inr (addButtonToPage noFave
               (Some (if \<not> result r then ''An error ocurred :(''
                      else if action m = ''add'' then ''Package added to faves :)''
                      else ''Package removed from faves :(''))
               ((handleFaveLinkClick removeLink removePage)\<lparr>pending := pending removePage\<rparr>))"
    and n: "\<forall>r fave. renderable (doc removePage) \<and>
          noFave (getPackageNameFromUrl (href removePage)) = Inr fave \<longrightarrow>
        (\<exists>s'. respond noFave (length (pending removePage)) (Some r)
                 (handleFaveLinkClick removeLink removePage) = Inr s' \<and>
              trace s' =
                trace removePage @ [SendMessage m,
                  GetFave (getPackageNameFromUrl (href removePage)) False,
                  CreateNotification INFO
                    (if \<not> result r then ''An error ocurred :(''
                     else if action m = ''add'' then ''Package added to faves :)''
                     else ''Package removed from faves :('') False] \<and>
              toggleControl (doc s') = Some (getFaveButtonElement (fave = None)))"
    by blast
  from a l have a': "action m = ''remove''" by simp
  from t p l have m: "m = removeMessage"
    by (simp add: handleFaveLinkClick_fields removeMessage_def)
  have e': "respond noFave 0 (Some r) clickedPage =
        Inr (addButtonToPage noFave
               (Some (if \<not> result r then ''An error ocurred :(''
                      else ''Package removed from faves :(''))
               (clickedPage\<lparr>pending := []\<rparr>))" for r
    using e a' by (simp add: removePage_facts(4) clickedPage_def)
  have n': "trace (addButtonToPage noFave
               (Some (if \<not> result r then ''An error ocurred :(''
                      else ''Package removed from faves :(''))
               (clickedPage\<lparr>pending := []\<rparr>)) =
             [GetFave (Some ''left-pad'') False, SendMessage removeMessage,
              GetFave (Some ''left-pad'') False,
              CreateNotification INFO
                (if \<not> result r then ''An error ocurred :(''
                 else ''Package removed from faves :('') False] \<and>
           toggleControl (doc (addButtonToPage noFave
               (Some (if \<not> result r then ''An error ocurred :(''
                      else ''Package removed from faves :(''))
               (clickedPage\<lparr>pending := []\<rparr>))) = Some (getFaveButtonElement True)"
    for r :: response
  proof -
    from n h1 h2 obtain s' where
      s': "respond noFave (length (pending removePage)) (Some r)
                 (handleFaveLinkClick removeLink removePage) = Inr s'"
        "trace s' =
                trace removePage @ [SendMessage m,
                  GetFave (getPackageNameFromUrl (href removePage)) False,
                  CreateNotification INFO
                    (if \<not> result r then ''An error ocurred :(''
                     else if action m = ''add'' then ''Package added to faves :)''
                     else ''Package removed from faves :('') False]"
        "toggleControl (doc s') = Some (getFaveButtonElement (None = (None :: unit option)))"
      by blast
    from s'(1) e'[of r] have "s' = addButtonToPage noFave
               (Some (if \<not> result r then ''An error ocurred :(''
                      else ''Package removed from faves :(''))
               (clickedPage\<lparr>pending := []\<rparr>)"
      by (simp add: removePage_facts(4) clickedPage_def)
    with s'(2,3) a' m p show ?thesis
      by (simp add: removePage_facts(5))
  qed
  show ?thesis
    using e'[of "\<lparr>result = True\<rparr>"] e'[of "\<lparr>result = False\<rparr>"]
      n'[of "\<lparr>result = True\<rparr>"] n'[of "\<lparr>result = False\<rparr>"] h1 h2
    by simp
qed

text \<open>
  C8. Without an element \<open>ul[role=tablist]\<close> the entry of the script changes nothing in
  the document, neither style sheet nor control, and logs one line with the address. The
  entry is a total function with its \<open>catch\<close> inside: nothing is thrown to the caller.
\<close>

theorem main_without_tablist:
  assumes "querySelector is_tablist (doc s) = None"
  shows "main getFave s =
           console_log (Str (''The url is not valid for the content script: '' @ href s)) s \<and>
         doc (main getFave s) = doc s \<and>
         trace (main getFave s) =
           trace s @ [ConsoleLog (Str (''The url is not valid for the content script: '' @ href s))]"
  using assms by (simp add: main_def validatePageContent_def console_log_def)

theorem main_without_tablist_witness:
  "querySelector is_tablist (doc captcha) = None \<and>
   doc (main noFave captcha) = captchaPage \<and>
   trace (main noFave captcha) =
     [ConsoleLog (Str ''The url is not valid for the content script: https://www.npmjs.com/package/left-pad'')]"
proof -
  have h: "querySelector is_tablist (doc captcha) = None"
    by (simp add: captcha_def captchaPage_def is_tablist_def)
  show ?thesis
    using main_without_tablist[where getFave = noFave, OF h] h
    by (simp add: captcha_def console_log_def)
qed

lemma addButtonToPage_changes:
  "addButtonToPage getFave message s \<noteq> s"
proof
  assume "addButtonToPage getFave message s = s"
  then have "length (trace (addButtonToPage getFave message s)) = length (trace s)" by simp
  moreover have "length (trace s) < length (trace (addButtonToPage getFave message s))"
    by (simp add: addButtonToPage_def Let_def console_log_def
        split: sum.splits option.splits prod.splits)
  ultimately show False by simp
qed

lemma addButtonToPage_no_notification:
  "filter is_notification (trace (addButtonToPage getFave None s)) =
   filter is_notification (trace s)"
  by (simp add: addButtonToPage_def Let_def console_log_def
      split: sum.splits option.splits prod.splits)

lemma matches_here_append:
  "matches_here (map Lit xs @ r) (xs @ ys) = matches_here r ys"
  by (induction xs) auto

lemma test_prefix: "matches_here re s \<Longrightarrow> test re s"
  by (cases s) auto

lemma pattern_item_page:
  "test pattern (''https://www.npmjs.com/package/'' @ rest)"
  by (rule test_prefix) (simp add: pattern_def)

text \<open>
  C9. When the document becomes visible, the listener renders exactly when the address
  matches the pattern of line 219, and it renders without a message: no notification is
  created. Otherwise the page stays as it is. On a page that can be rendered the control
  shown afterwards is the one for the answer of the storage.
\<close>

theorem visibility_rerender:
  assumes "\<not> hidden s"
  shows "(onVisibilityChange getFave s = addButtonToPage getFave None s \<longleftrightarrow>
            test pattern (href s)) \<and>
         (\<not> test pattern (href s) \<longrightarrow> onVisibilityChange getFave s = s) \<and>
         filter is_notification (trace (onVisibilityChange getFave s)) =
           filter is_notification (trace s) \<and>
         (\<forall>fave. test pattern (href s) \<and> renderable (doc s) \<and>
                 getFave (getPackageNameFromUrl (href s)) = Inr fave \<longrightarrow>
            toggleControl (doc (onVisibilityChange getFave s)) =
              Some (getFaveButtonElement (fave = None)))"
proof -
  have v: "onVisibilityChange getFave s =
      (if test pattern (href s) then addButtonToPage getFave None s else s)"
    using assms by (simp add: onVisibilityChange_def)
  have "toggleControl (doc (onVisibilityChange getFave s)) =
              Some (getFaveButtonElement (fave = None))"
    if "test pattern (href s)" "renderable (doc s)"
      "getFave (getPackageNameFromUrl (href s)) = Inr fave" for fave
    using addButtonToPage_renderable(1)[where getFave = getFave and message = None,
        OF that(2,3)] v that(1) by simp
  then show ?thesis
    using v addButtonToPage_changes[of getFave None s]
      addButtonToPage_no_notification[of getFave s]
    by auto
qed

theorem visibility_rerender_witness:
  "\<not> hidden removePage \<and> test pattern (href removePage) \<and>
   renderable (doc removePage) \<and>
   noFave (getPackageNameFromUrl (href removePage)) = Inr None \<and>
   onVisibilityChange noFave removePage = addButtonToPage noFave None removePage \<and>
   toggleControl (doc (onVisibilityChange noFave removePage)) = Some (getFaveButtonElement True) \<and>
   \<not> test pattern ''https://www.npmjs.com/'' \<and>
   onVisibilityChange noFave (removePage\<lparr>href := ''https://www.npmjs.com/''\<rparr>) =
     removePage\<lparr>href := ''https://www.npmjs.com/''\<rparr>"
proof -
  have hid: "hidden (addButtonToPage getFave message s) = hidden s" for getFave :: "unit storage"
      and message s
    by (simp add: addButtonToPage_def Let_def console_log_def
        split: sum.splits option.splits prod.splits)
  have h0: "\<not> hidden removePage"
    by (simp add: removePage_def hid) (simp add: leftPad_def)
  have h1: "test pattern (href removePage)"
    using pattern_item_page[of "''left-pad''"] by (simp add: removePage_facts)
  have h2: "renderable (doc removePage)" by (rule removePage_facts)
  have h3: "noFave (getPackageNameFromUrl (href removePage)) = Inr None"
    by (simp add: noFave_def)
  have h4: "\<not> test pattern ''https://www.npmjs.com/''"
    by (simp add: pattern_def)
  let ?s = "removePage\<lparr>href := ''https://www.npmjs.com/''\<rparr>"
  have h5: "\<not> hidden ?s" using h0 by simp
  have h6: "\<not> test pattern (href ?s)" using h4 by simp
  note a = visibility_rerender[where getFave = noFave, OF h0]
  note b = visibility_rerender[where getFave = noFave, OF h5]
  from a h1 have 1: "onVisibilityChange noFave removePage = addButtonToPage noFave None removePage"
    by blast
  from a h1 h2 h3 have 2: "toggleControl (doc (onVisibilityChange noFave removePage)) =
      Some (getFaveButtonElement (None = (None :: unit option)))"
    by blast
  from b h6 have 3: "onVisibilityChange noFave ?s = ?s"
    by blast
  show ?thesis
    using 1 2 3 h0 h1 h2 h3 h4 by simp
qed

text \<open>
  C4. When the runtime ends the round trip of a click without a response, reading
  \<open>response.result\<close> throws a \<open>TypeError\<close>. Neither the callback nor the handler has a
  \<open>try\<close>: the error leaves the callback. The page is left as the handler made it, the
  control disabled, and the only call recorded since the click is the \<open>sendMessage\<close>
  itself, no \<open>console.log\<close>.
\<close>

theorem callback_without_response_throws:
  "\<exists>m. respond getFave (length (pending s)) None (handleFaveLinkClick this s) =
          Inl (TypeError, (handleFaveLinkClick this s)\<lparr>pending := pending s\<rparr>) \<and>
        doc (handleFaveLinkClick this s) = disableButton (doc s) \<and>
        trace (handleFaveLinkClick this s) = trace s @ [SendMessage m]"
  by (simp add: handleFaveLinkClick_fields respond_def sendMessage_callback_def nth_append)

subsection \<open>A page whose address gives no identifier\<close>

text \<open>
  C5, as far as it holds. When \<open>getPackageNameFromUrl\<close> returns \<open>null\<close> nothing aborts:
  \<open>addButtonToPage\<close> asks the storage for the identifier \<open>null\<close> and, on a page that can
  be rendered, shows the control for the answer; the click handler sends its message with
  \<open>packageName\<close> \<open>null\<close>.
\<close>

theorem null_identifier_still_renders:
  assumes "getPackageNameFromUrl (href s) = None"
  shows "trace (addButtonToPage getFave message s) ! length (trace s) = GetFave None False \<and>
         (\<forall>fave. renderable (doc s) \<and> getFave None = Inr fave \<longrightarrow>
            toggleControl (doc (addButtonToPage getFave message s)) =
              Some (getFaveButtonElement (fave = None))) \<and>
         packageName (fst (last (pending (handleFaveLinkClick this s)))) = None"
proof -
  have "toggleControl (doc (addButtonToPage getFave message s)) =
              Some (getFaveButtonElement (fave = None))"
    if "renderable (doc s)" "getFave None = Inr fave" for fave
    using addButtonToPage_renderable(1)[where getFave = getFave and s = s and fave = fave]
      that assms by simp
  then show ?thesis
    using addButtonToPage_trace_nth[of getFave message s] assms
    by (simp add: handleFaveLinkClick_fields)
qed

lemma versionPage_facts:
  "getPackageNameFromUrl (href versionPage) = None"
  "renderable (doc versionPage)"
  "injectStyles (doc versionPage) = Inr
     [Element ''html'' []
        [Element ''head'' []
           [Element ''link'' [(''rel'', ''stylesheet''), (''href'', hd styles)] []],
         Element ''body'' []
           [Element ''div'' []
              [Element ''div'' [] [Element ''h2'' [] [TextNode ''left-pad'']],
               Element ''ul'' [(''role'', ''tablist'')] []]]]]"
  "validatePageContent (doc versionPage)"
  by (simp_all add: versionPage_def samplePage_def getPackageNameFromUrl_def split_def
      renderable_def injectionPoint_def removeOldButton_def is_npmFavesLink_def is_tablist_def
      parentElement_def children0_def injectStyles_def styles_def appendChild_def
      validatePageContent_def)

theorem null_identifier_still_renders_witness:
  "getPackageNameFromUrl (href versionPage) = None \<and>
   renderable (doc versionPage) \<and> noFave None = Inr None \<and>
   trace (addButtonToPage noFave None versionPage) ! length (trace versionPage) =
     GetFave None False \<and>
   toggleControl (doc (addButtonToPage noFave None versionPage)) =
     Some (getFaveButtonElement True)"
proof -
  have h1: "getPackageNameFromUrl (href versionPage) = None" by (rule versionPage_facts)
  have h2: "renderable (doc versionPage)" by (rule versionPage_facts)
  have h3: "noFave None = Inr None" by (simp add: noFave_def)
  note t = null_identifier_still_renders[where getFave = noFave and message = None, OF h1]
  from t h2 h3 have "toggleControl (doc (addButtonToPage noFave None versionPage)) =
       Some (getFaveButtonElement (None = (None :: unit option)))"
    by blast
  moreover from t have "trace (addButtonToPage noFave None versionPage) ! length (trace versionPage) =
     GetFave None False" by blast
  ultimately show ?thesis using h1 h2 h3 by simp
qed

text \<open>
  C5 as it is written fails. The address \<open>.../package/some-package/v/1.0.0\<close> contains
  \<open>"package/"\<close> twice, so the identifier is \<open>null\<close>; the entry of the script still
  queries the storage, with \<open>null\<close>, and injects the "Add to faves" control.
\<close>

theorem null_identifier_initialization:
  "getPackageNameFromUrl (href versionPage) = None \<and>
   trace (main noFave versionPage) = [GetFave None False] \<and>
   toggleControl (doc (main noFave versionPage)) = Some (getFaveButtonElement True)"
proof -
  let ?d = "[Element ''html'' []
        [Element ''head'' []
           [Element ''link'' [(''rel'', ''stylesheet''), (''href'', hd styles)] []],
         Element ''body'' []
           [Element ''div'' []
              [Element ''div'' [] [Element ''h2'' [] [TextNode ''left-pad'']],
               Element ''ul'' [(''role'', ''tablist'')] []]]]]"
  let ?s = "versionPage\<lparr>doc := ?d\<rparr>"
  have m: "main noFave versionPage = addButtonToPage noFave None ?s"
    by (simp add: main_def versionPage_facts)
  have r: "renderable (doc ?s)"
    by (simp add: renderable_def injectionPoint_def removeOldButton_def is_npmFavesLink_def
        is_tablist_def parentElement_def children0_def)
  have p: "getPackageNameFromUrl (href ?s) = None"
    using versionPage_facts(1) by simp
  have g: "noFave (getPackageNameFromUrl (href ?s)) = Inr None"
    by (simp add: noFave_def)
  note a = addButtonToPage_renderable[where getFave = noFave and message = None, OF r g]
  have t: "trace ?s = []" by (simp add: versionPage_def)
  show ?thesis
    using a(1) a(5) m p t versionPage_facts(1) by simp
qed

subsection \<open>The identifier of the page\<close>










end
